theory Spec2Isabelle
  imports Main "HOL-Library.Word" "HOL-Library.Code_Target_Nat"
begin

unbundle bit_operations_syntax

section \<open>Azure: storage account names\<close>

text \<open>
  \<^verbatim>\<open>AzureStorageManager.generate_storage_account_name\<close>
  (\<^verbatim>\<open>src/azure/02-storage/02-azure-storage-python.py\<close>, lines 44 to 54):
  \<^verbatim>\<open>
  prefix = container_name.lower().replace('-', '')[:15]
  timestamp = str(int(time.time()))[-4:]
  hash_suffix = hashlib.md5(container_name.encode()).hexdigest()[:4]
  return f"{prefix}{timestamp}{hash_suffix}"[:24]
  \<close>
  A Python \<^verbatim>\<open>str\<close> is a sequence of code points. A \<^typ>\<open>char\<close> stands for a code
  point below 256; names with larger code points are outside this model. The clock is
  the argument \<open>now\<close>, the value of \<^verbatim>\<open>int(time.time())\<close>.
\<close>

subsection \<open>Python string primitives\<close>

text \<open>\<^verbatim>\<open>str.lower\<close> on code points below 256: \<open>A\<close> to \<open>Z\<close> and the Latin-1 capitals
  (192 to 222 without the multiplication sign 215) move up by 32.\<close>

definition lower_char :: "char \<Rightarrow> char" where
  "lower_char c =
     (let n = of_char c :: nat in
      if (65 \<le> n \<and> n \<le> 90) \<or> (192 \<le> n \<and> n \<le> 222 \<and> n \<noteq> 215)
      then char_of (n + 32) else c)"

definition lower :: "string \<Rightarrow> string" where
  "lower s = map lower_char s"

text \<open>\<^verbatim>\<open>s.replace('-', '')\<close>.\<close>

definition remove_dashes :: "string \<Rightarrow> string" where
  "remove_dashes s = filter (\<lambda>c. c \<noteq> CHR ''-'') s"

text \<open>\<^verbatim>\<open>str(n)\<close> of an integer: decimal digits, a minus sign for a negative one.\<close>

definition digit_char :: "nat \<Rightarrow> char" where
  "digit_char d = char_of (48 + d)"

fun str_nat :: "nat \<Rightarrow> string" where
  "str_nat n = (if n < 10 then [digit_char n] else str_nat (n div 10) @ [digit_char (n mod 10)])"

declare str_nat.simps [simp del]

definition str_int :: "int \<Rightarrow> string" where
  "str_int i = (if i < 0 then CHR ''-'' # str_nat (nat (- i)) else str_nat (nat i))"

text \<open>The slice \<^verbatim>\<open>s[-k:]\<close>: the last \<open>k\<close> items, the whole of a shorter \<open>s\<close>.\<close>

definition last_chars :: "nat \<Rightarrow> 'a list \<Rightarrow> 'a list" where
  "last_chars k s = drop (length s - k) s"

text \<open>\<^verbatim>\<open>str.encode()\<close>: UTF-8, two bytes for a code point from 128 to 255.\<close>

definition encode_char :: "char \<Rightarrow> 8 word list" where
  "encode_char c =
     (let n = of_char c :: nat in
      if n < 128 then [of_nat n]
      else [of_nat (192 + n div 64), of_nat (128 + n mod 64)])"

definition encode :: "string \<Rightarrow> 8 word list" where
  "encode s = concat (map encode_char s)"

subsection \<open>MD5 (RFC 1321), as \<^verbatim>\<open>hashlib.md5(...).hexdigest()\<close> computes it\<close>

type_synonym w32 = "32 word"

definition md5_K :: "w32 list" where
  "md5_K = [
    0xd76aa478, 0xe8c7b756, 0x242070db, 0xc1bdceee, 0xf57c0faf, 0x4787c62a, 0xa8304613, 0xfd469501,
    0x698098d8, 0x8b44f7af, 0xffff5bb1, 0x895cd7be, 0x6b901122, 0xfd987193, 0xa679438e, 0x49b40821,
    0xf61e2562, 0xc040b340, 0x265e5a51, 0xe9b6c7aa, 0xd62f105d, 0x02441453, 0xd8a1e681, 0xe7d3fbc8,
    0x21e1cde6, 0xc33707d6, 0xf4d50d87, 0x455a14ed, 0xa9e3e905, 0xfcefa3f8, 0x676f02d9, 0x8d2a4c8a,
    0xfffa3942, 0x8771f681, 0x6d9d6122, 0xfde5380c, 0xa4beea44, 0x4bdecfa9, 0xf6bb4b60, 0xbebfbc70,
    0x289b7ec6, 0xeaa127fa, 0xd4ef3085, 0x04881d05, 0xd9d4d039, 0xe6db99e5, 0x1fa27cf8, 0xc4ac5665,
    0xf4292244, 0x432aff97, 0xab9423a7, 0xfc93a039, 0x655b59c3, 0x8f0ccc92, 0xffeff47d, 0x85845dd1,
    0x6fa87e4f, 0xfe2ce6e0, 0xa3014314, 0x4e0811a1, 0xf7537e82, 0xbd3af235, 0x2ad7d2bb, 0xeb86d391]"

definition md5_S :: "nat list" where
  "md5_S = [
    7, 12, 17, 22, 7, 12, 17, 22, 7, 12, 17, 22, 7, 12, 17, 22,
    5, 9, 14, 20, 5, 9, 14, 20, 5, 9, 14, 20, 5, 9, 14, 20,
    4, 11, 16, 23, 4, 11, 16, 23, 4, 11, 16, 23, 4, 11, 16, 23,
    6, 10, 15, 21, 6, 10, 15, 21, 6, 10, 15, 21, 6, 10, 15, 21]"

definition rotl32 :: "nat \<Rightarrow> w32 \<Rightarrow> w32" where
  "rotl32 n x = push_bit n x OR drop_bit (32 - n) x"

definition le_bytes :: "nat \<Rightarrow> nat \<Rightarrow> 8 word list" where
  "le_bytes k n = map (\<lambda>i. of_nat (n div 256 ^ i mod 256)) [0..<k]"

definition md5_pad :: "8 word list \<Rightarrow> 8 word list" where
  "md5_pad m =
     m @ [0x80] @ replicate ((119 - length m mod 64) mod 64) 0
       @ le_bytes 8 (8 * length m mod 2 ^ 64)"

definition le_word :: "8 word list \<Rightarrow> w32" where
  "le_word bs = foldr (\<lambda>b acc. ucast b + 256 * acc) bs 0"

fun chunks :: "nat \<Rightarrow> nat \<Rightarrow> 'a list \<Rightarrow> 'a list list" where
  "chunks 0 k xs = []"
| "chunks (Suc n) k xs = take k xs # chunks n k (drop k xs)"

definition md5_step :: "w32 list \<Rightarrow> w32 \<times> w32 \<times> w32 \<times> w32 \<Rightarrow> nat \<Rightarrow> w32 \<times> w32 \<times> w32 \<times> w32" where
  "md5_step M st i =
     (case st of (A, B, C, D) \<Rightarrow>
        let (F, g) =
              (if i < 16 then ((B AND C) OR (NOT B AND D), i)
               else if i < 32 then ((D AND B) OR (NOT D AND C), (5 * i + 1) mod 16)
               else if i < 48 then (B XOR C XOR D, (3 * i + 5) mod 16)
               else (C XOR (B OR NOT D), (7 * i) mod 16));
            F' = F + A + md5_K ! i + M ! g
        in (D, B + rotl32 (md5_S ! i) F', B, C))"

definition md5_block :: "w32 \<times> w32 \<times> w32 \<times> w32 \<Rightarrow> 8 word list \<Rightarrow> w32 \<times> w32 \<times> w32 \<times> w32" where
  "md5_block st blk =
     (let M = map le_word (chunks 16 4 blk) in
      case (st, foldl (md5_step M) st [0..<64]) of
        ((a0, b0, c0, d0), (A, B, C, D)) \<Rightarrow> (a0 + A, b0 + B, c0 + C, d0 + D))"

definition md5_digest :: "8 word list \<Rightarrow> 8 word list" where
  "md5_digest m =
     (let p = md5_pad m in
      case foldl md5_block (0x67452301, 0xefcdab89, 0x98badcfe, 0x10325476)
             (chunks (length p div 64) 64 p) of
        (a, b, c, d) \<Rightarrow> concat (map (\<lambda>w. le_bytes 4 (unat w)) [a, b, c, d]))"

definition hex_digit :: "nat \<Rightarrow> char" where
  "hex_digit d = (if d < 10 then char_of (48 + d) else char_of (87 + d))"

definition hex_byte :: "8 word \<Rightarrow> string" where
  "hex_byte b = [hex_digit (unat b div 16), hex_digit (unat b mod 16)]"

definition md5_hexdigest :: "8 word list \<Rightarrow> string" where
  "md5_hexdigest m = concat (map hex_byte (md5_digest m))"

subsection \<open>The generator\<close>

definition generate_storage_account_name :: "int \<Rightarrow> string \<Rightarrow> string" where
  "generate_storage_account_name now container_name =
     (let prefix = take 15 (remove_dashes (lower container_name));
          timestamp = last_chars 4 (str_int now);
          hash_suffix = take 4 (md5_hexdigest (encode container_name))
      in take 24 (prefix @ timestamp @ hash_suffix))"

section \<open>Provider calls, traces and output\<close>

text \<open>
  The three scripts talk to their cloud through SDK calls. A call is a function of the
  provider's state that returns a response, or the exception it raises (\<open>Inl\<close>), and
  the next state. The scripts run in a world that holds the provider's state, the SDK
  calls made so far and the lines printed or logged so far, both in order.
\<close>

record ('st, 'c, 'm) world =
  backend :: 'st
  calls :: "'c list"
  out :: "'m list"

definition request :: "'c \<Rightarrow> ('st \<Rightarrow> 'r \<times> 'st) \<Rightarrow> ('st, 'c, 'm) world \<Rightarrow> 'r \<times> ('st, 'c, 'm) world" where
  "request c f w =
     (case f (backend w) of (r, s) \<Rightarrow> (r, w\<lparr>backend := s, calls := calls w @ [c]\<rparr>))"

definition say :: "'m \<Rightarrow> ('st, 'c, 'm) world \<Rightarrow> ('st, 'c, 'm) world" where
  "say m w = w\<lparr>out := out w @ [m]\<rparr>"

definition start :: "'st \<Rightarrow> ('st, 'c, 'm) world" where
  "start s = \<lparr>backend = s, calls = [], out = []\<rparr>"

text \<open>How a Python function ends: it returns, it calls \<^verbatim>\<open>sys.exit\<close>, or an exception
  leaves it.\<close>

datatype ('e, 'a) result = Returns 'a | Exits int | Raises 'e

section \<open>AWS: \<^verbatim>\<open>src/aws/02-storage/02-bucket-python.py\<close>\<close>

text \<open>
  \<open>ClientError code\<close> is botocore's \<^verbatim>\<open>ClientError\<close> with
  \<^verbatim>\<open>e.response['Error']['Code'] == code\<close>; \<open>OtherBotoError\<close> is any other
  exception of the SDK (a connection failure, missing credentials), which
  \<^verbatim>\<open>except ClientError\<close> does not catch.
\<close>

datatype aws_exn = ClientError string | OtherBotoError

datatype s3_call =
    HeadBucket string
  | CreateBucket string "string option"
  | DeleteAllObjects string string
  | DeleteBucket string
  | GetBucketLocation string
  | ListBuckets

text \<open>The lines the script prints, without their interpolated bucket name.\<close>

datatype aws_msg =
    S3_access_denied
  | S3_error_checking string
  | S3_already_exists_skipping
  | S3_creating
  | S3_created
  | S3_exists_different_region
  | S3_already_owned_by_you
  | S3_failed_to_create string
  | S3_does_not_exist_skipping
  | S3_deleting
  | S3_attempting_to_empty
  | S3_emptied
  | S3_could_not_be_emptied string
  | S3_deleted
  | S3_failed_to_delete string
  | S3_exists
  | S3_region "string option"
  | S3_creation_date string
  | S3_could_not_retrieve_details string
  | S3_does_not_exist

text \<open>
  The client. \<open>s3_create_bucket\<close> takes the \<^verbatim>\<open>LocationConstraint\<close> if one is sent;
  \<open>s3_delete_all_objects region bucket\<close> is
  \<^verbatim>\<open>boto3.resource('s3', region_name=region).Bucket(bucket).objects.all().delete()\<close>;
  \<open>s3_get_bucket_location\<close> answers \<^verbatim>\<open>location.get('LocationConstraint')\<close> when the
  response has that key (\<open>Some None\<close> is Python's \<^verbatim>\<open>None\<close> stored under it) and \<open>None\<close>
  when it has not; \<open>s3_list_buckets\<close> answers the \<^verbatim>\<open>Name\<close> and
  \<^verbatim>\<open>CreationDate\<close> of each bucket.
\<close>

record 'st s3_client =
  s3_head_bucket :: "string \<Rightarrow> 'st \<Rightarrow> (aws_exn + unit) \<times> 'st"
  s3_create_bucket :: "string \<Rightarrow> string option \<Rightarrow> 'st \<Rightarrow> (aws_exn + unit) \<times> 'st"
  s3_delete_all_objects :: "string \<Rightarrow> string \<Rightarrow> 'st \<Rightarrow> (aws_exn + unit) \<times> 'st"
  s3_delete_bucket :: "string \<Rightarrow> 'st \<Rightarrow> (aws_exn + unit) \<times> 'st"
  s3_get_bucket_location :: "string \<Rightarrow> 'st \<Rightarrow> (aws_exn + string option option) \<times> 'st"
  s3_list_buckets :: "'st \<Rightarrow> (aws_exn + (string \<times> string) list) \<times> 'st"

type_synonym 'st aws_world = "('st, s3_call, aws_msg) world"

definition bucket_exists :: "'st s3_client \<Rightarrow> string \<Rightarrow> 'st aws_world \<Rightarrow> (aws_exn, bool) result \<times> 'st aws_world" where
  "bucket_exists s3 bucket_name w =
     (case request (HeadBucket bucket_name) (s3_head_bucket s3 bucket_name) w of
        (Inr _, w1) \<Rightarrow> (Returns True, w1)
      | (Inl (ClientError error_code), w1) \<Rightarrow>
          if error_code = ''404'' then (Returns False, w1)
          else if error_code = ''403'' then (Exits 1, say S3_access_denied w1)
          else (Exits 1, say (S3_error_checking error_code) w1)
      | (Inl OtherBotoError, w1) \<Rightarrow> (Raises OtherBotoError, w1))"

definition aws_create_bucket :: "'st s3_client \<Rightarrow> string \<Rightarrow> string \<Rightarrow> 'st aws_world \<Rightarrow> (aws_exn, bool) result \<times> 'st aws_world" where
  "aws_create_bucket s3 bucket_name region w =
     (case bucket_exists s3 bucket_name w of
        (Returns True, w1) \<Rightarrow> (Returns True, say S3_already_exists_skipping w1)
      | (Returns False, w1) \<Rightarrow>
          (let location = (if region = ''us-east-1'' then None else Some region) in
           case request (CreateBucket bucket_name location)
                  (s3_create_bucket s3 bucket_name location) (say S3_creating w1) of
             (Inr _, w2) \<Rightarrow> (Returns True, say S3_created w2)
           | (Inl (ClientError error_code), w2) \<Rightarrow>
               if error_code = ''BucketAlreadyExists''
               then (Returns True, say S3_exists_different_region w2)
               else if error_code = ''BucketAlreadyOwnedByYou''
               then (Returns True, say S3_already_owned_by_you w2)
               else (Returns False, say (S3_failed_to_create error_code) w2)
           | (Inl OtherBotoError, w2) \<Rightarrow> (Raises OtherBotoError, w2))
      | (Exits n, w1) \<Rightarrow> (Exits n, w1)
      | (Raises e, w1) \<Rightarrow> (Raises e, w1))"

text \<open>\<^verbatim>\<open>delete_bucket\<close>, lines 100 to 107: the call that deletes the bucket.\<close>

definition aws_delete_bucket_call :: "'st s3_client \<Rightarrow> string \<Rightarrow> 'st aws_world \<Rightarrow> (aws_exn, bool) result \<times> 'st aws_world" where
  "aws_delete_bucket_call s3 bucket_name w =
     (case request (DeleteBucket bucket_name) (s3_delete_bucket s3 bucket_name) w of
        (Inr _, w1) \<Rightarrow> (Returns True, say S3_deleted w1)
      | (Inl (ClientError error_code), w1) \<Rightarrow>
          (Returns False, say (S3_failed_to_delete error_code) w1)
      | (Inl OtherBotoError, w1) \<Rightarrow> (Raises OtherBotoError, w1))"

definition aws_delete_bucket :: "'st s3_client \<Rightarrow> string \<Rightarrow> string \<Rightarrow> 'st aws_world \<Rightarrow> (aws_exn, bool) result \<times> 'st aws_world" where
  "aws_delete_bucket s3 bucket_name region w =
     (case bucket_exists s3 bucket_name w of
        (Returns False, w1) \<Rightarrow> (Returns True, say S3_does_not_exist_skipping w1)
      | (Returns True, w1) \<Rightarrow>
          (case request (DeleteAllObjects region bucket_name)
                  (s3_delete_all_objects s3 region bucket_name)
                  (say S3_attempting_to_empty (say S3_deleting w1)) of
             (Inr _, w2) \<Rightarrow> aws_delete_bucket_call s3 bucket_name (say S3_emptied w2)
           | (Inl (ClientError error_code), w2) \<Rightarrow>
               aws_delete_bucket_call s3 bucket_name (say (S3_could_not_be_emptied error_code) w2)
           | (Inl OtherBotoError, w2) \<Rightarrow> (Raises OtherBotoError, w2))
      | (Exits n, w1) \<Rightarrow> (Exits n, w1)
      | (Raises e, w1) \<Rightarrow> (Raises e, w1))"

text \<open>The loop of \<^verbatim>\<open>check_bucket\<close> over \<^verbatim>\<open>response['Buckets']\<close>: the creation
  date of the first bucket of that name, then \<^verbatim>\<open>break\<close>.\<close>

fun print_creation_date :: "string \<Rightarrow> (string \<times> string) list \<Rightarrow> 'st aws_world \<Rightarrow> 'st aws_world" where
  "print_creation_date bucket_name [] w = w"
| "print_creation_date bucket_name (bucket # buckets) w =
     (if fst bucket = bucket_name then say (S3_creation_date (snd bucket)) w
      else print_creation_date bucket_name buckets w)"

definition aws_check_bucket :: "'st s3_client \<Rightarrow> string \<Rightarrow> 'st aws_world \<Rightarrow> (aws_exn, bool) result \<times> 'st aws_world" where
  "aws_check_bucket s3 bucket_name w =
     (case bucket_exists s3 bucket_name w of
        (Returns True, w1) \<Rightarrow>
          (case request (GetBucketLocation bucket_name) (s3_get_bucket_location s3 bucket_name)
                  (say S3_exists w1) of
             (Inr location, w2) \<Rightarrow>
               (let region = (case location of None \<Rightarrow> Some ''us-east-1'' | Some v \<Rightarrow> v) in
                case request ListBuckets (s3_list_buckets s3) (say (S3_region region) w2) of
                  (Inr buckets, w3) \<Rightarrow> (Returns True, print_creation_date bucket_name buckets w3)
                | (Inl (ClientError error_code), w3) \<Rightarrow>
                    (Returns True, say (S3_could_not_retrieve_details error_code) w3)
                | (Inl OtherBotoError, w3) \<Rightarrow> (Raises OtherBotoError, w3))
           | (Inl (ClientError error_code), w2) \<Rightarrow>
               (Returns True, say (S3_could_not_retrieve_details error_code) w2)
           | (Inl OtherBotoError, w2) \<Rightarrow> (Raises OtherBotoError, w2))
      | (Returns False, w1) \<Rightarrow> (Returns False, say S3_does_not_exist w1)
      | (Exits n, w1) \<Rightarrow> (Exits n, w1)
      | (Raises e, w1) \<Rightarrow> (Raises e, w1))"

text \<open>
  The end of \<^verbatim>\<open>main\<close> (lines 178 to 198): exit status 0 when the action returned
  \<^verbatim>\<open>True\<close>, 1 when it returned \<^verbatim>\<open>False\<close> or an exception reached
  \<^verbatim>\<open>except Exception\<close>; a \<^verbatim>\<open>sys.exit\<close> inside the action is not an
  \<^verbatim>\<open>Exception\<close> and keeps its status.
\<close>

definition aws_exit_status :: "(aws_exn, bool) result \<Rightarrow> int" where
  "aws_exit_status r =
     (case r of Returns success \<Rightarrow> (if success then 0 else 1) | Exits n \<Rightarrow> n | Raises e \<Rightarrow> 1)"

section \<open>GCP: \<^verbatim>\<open>src/gcp/02-storage/02-python-bucket.py\<close>\<close>

text \<open>
  The exceptions of \<^verbatim>\<open>google.api_core.exceptions\<close> the script names, \<open>Forbidden\<close>
  (HTTP 403), and any other \<^verbatim>\<open>Exception\<close>. Every function of the script catches
  \<^verbatim>\<open>Exception\<close>, so each returns a truth value. The client handle
  \<^verbatim>\<open>storage.Client(project=project_id)\<close> is taken as given.
\<close>

datatype gcp_exn = Conflict | NotFound | Forbidden | OtherGoogleError

datatype gcs_call =
    GetBucket string
  | CreateBucketIn string string string
  | ListBlobs string
  | DeleteBlobs string "string list"
  | BucketDelete string

record bucket_metadata =
  bucket_location :: string
  bucket_storage_class :: string
  bucket_time_created :: string

datatype gcp_msg =
    Gcs_already_exists_skipping
  | Gcs_created
  | Gcs_conflict
  | Gcs_failed_to_create gcp_exn
  | Gcs_does_not_exist_skipping
  | Gcs_attempting_to_delete_objects
  | Gcs_deleted_objects nat
  | Gcs_could_not_delete_objects gcp_exn
  | Gcs_deleted
  | Gcs_does_not_exist
  | Gcs_failed_to_delete gcp_exn
  | Gcs_exists
  | Gcs_location string
  | Gcs_storage_class string
  | Gcs_time_created string
  | Gcs_error_checking gcp_exn

record 'st gcs_client =
  gcs_get_bucket :: "string \<Rightarrow> 'st \<Rightarrow> (gcp_exn + bucket_metadata) \<times> 'st"
  gcs_create_bucket :: "string \<Rightarrow> string \<Rightarrow> string \<Rightarrow> 'st \<Rightarrow> (gcp_exn + unit) \<times> 'st"
  gcs_list_blobs :: "string \<Rightarrow> 'st \<Rightarrow> (gcp_exn + string list) \<times> 'st"
  gcs_delete_blobs :: "string \<Rightarrow> string list \<Rightarrow> 'st \<Rightarrow> (gcp_exn + unit) \<times> 'st"
  gcs_bucket_delete :: "string \<Rightarrow> 'st \<Rightarrow> (gcp_exn + unit) \<times> 'st"

type_synonym 'st gcp_world = "('st, gcs_call, gcp_msg) world"

text \<open>The two handlers that close \<^verbatim>\<open>create_bucket\<close> (lines 34 to 39).\<close>

definition gcp_create_failed :: "gcp_exn \<Rightarrow> 'st gcp_world \<Rightarrow> bool \<times> 'st gcp_world" where
  "gcp_create_failed e w =
     (case e of Conflict \<Rightarrow> (False, say Gcs_conflict w)
              | _ \<Rightarrow> (False, say (Gcs_failed_to_create e) w))"

definition gcp_create_bucket :: "'st gcs_client \<Rightarrow> string \<Rightarrow> string \<Rightarrow> string \<Rightarrow> 'st gcp_world \<Rightarrow> bool \<times> 'st gcp_world" where
  "gcp_create_bucket gcs bucket_name loc sclass w =
     (case request (GetBucket bucket_name) (gcs_get_bucket gcs bucket_name) w of
        (Inr _, w1) \<Rightarrow> (True, say Gcs_already_exists_skipping w1)
      | (Inl NotFound, w1) \<Rightarrow>
          (case request (CreateBucketIn bucket_name loc sclass)
                  (gcs_create_bucket gcs bucket_name loc sclass) w1 of
             (Inr _, w2) \<Rightarrow> (True, say Gcs_created w2)
           | (Inl e, w2) \<Rightarrow> gcp_create_failed e w2)
      | (Inl e, w1) \<Rightarrow> gcp_create_failed e w1)"

text \<open>The two handlers that close \<^verbatim>\<open>delete_bucket\<close> (lines 68 to 73).\<close>

definition gcp_delete_failed :: "gcp_exn \<Rightarrow> 'st gcp_world \<Rightarrow> bool \<times> 'st gcp_world" where
  "gcp_delete_failed e w =
     (case e of NotFound \<Rightarrow> (True, say Gcs_does_not_exist w)
              | _ \<Rightarrow> (False, say (Gcs_failed_to_delete e) w))"

text \<open>Lines 53 to 61: the objects are listed, deleted when there are any, and an
  exception of either call is a warning.\<close>

definition gcp_delete_objects :: "'st gcs_client \<Rightarrow> string \<Rightarrow> 'st gcp_world \<Rightarrow> 'st gcp_world" where
  "gcp_delete_objects gcs bucket_name w =
     (case request (ListBlobs bucket_name) (gcs_list_blobs gcs bucket_name)
             (say Gcs_attempting_to_delete_objects w) of
        (Inr blobs, w1) \<Rightarrow>
          (if blobs \<noteq> [] then
             (case request (DeleteBlobs bucket_name blobs)
                     (gcs_delete_blobs gcs bucket_name blobs) w1 of
                (Inr _, w2) \<Rightarrow> say (Gcs_deleted_objects (length blobs)) w2
              | (Inl e, w2) \<Rightarrow> say (Gcs_could_not_delete_objects e) w2)
           else w1)
      | (Inl e, w1) \<Rightarrow> say (Gcs_could_not_delete_objects e) w1)"

definition gcp_delete_bucket :: "'st gcs_client \<Rightarrow> string \<Rightarrow> 'st gcp_world \<Rightarrow> bool \<times> 'st gcp_world" where
  "gcp_delete_bucket gcs bucket_name w =
     (case request (GetBucket bucket_name) (gcs_get_bucket gcs bucket_name) w of
        (Inl NotFound, w1) \<Rightarrow> (True, say Gcs_does_not_exist_skipping w1)
      | (Inl e, w1) \<Rightarrow> gcp_delete_failed e w1
      | (Inr _, w1) \<Rightarrow>
          (case request (BucketDelete bucket_name) (gcs_bucket_delete gcs bucket_name)
                  (gcp_delete_objects gcs bucket_name w1) of
             (Inr _, w2) \<Rightarrow> (True, say Gcs_deleted w2)
           | (Inl e, w2) \<Rightarrow> gcp_delete_failed e w2))"

definition gcp_check_bucket :: "'st gcs_client \<Rightarrow> string \<Rightarrow> 'st gcp_world \<Rightarrow> bool \<times> 'st gcp_world" where
  "gcp_check_bucket gcs bucket_name w =
     (case request (GetBucket bucket_name) (gcs_get_bucket gcs bucket_name) w of
        (Inr bucket, w1) \<Rightarrow>
          (True, say (Gcs_time_created (bucket_time_created bucket))
                   (say (Gcs_storage_class (bucket_storage_class bucket))
                      (say (Gcs_location (bucket_location bucket)) (say Gcs_exists w1))))
      | (Inl NotFound, w1) \<Rightarrow> (False, say Gcs_does_not_exist w1)
      | (Inl e, w1) \<Rightarrow> (False, say (Gcs_error_checking e) w1))"

section \<open>Azure: \<^verbatim>\<open>src/azure/02-storage/02-azure-storage-python.py\<close>\<close>

text \<open>
  The exceptions of \<^verbatim>\<open>azure.core.exceptions\<close> the script names, an
  \<^verbatim>\<open>HttpResponseError\<close> with its status code (403 when access is denied), and any
  other \<^verbatim>\<open>Exception\<close>. The resource group and the region of the manager are
  fixed for a run and are part of the client.
\<close>

datatype azure_exn =
    ResourceExistsError
  | ResourceNotFoundError
  | HttpResponseError nat
  | OtherAzureError

datatype azure_call =
    GetProperties string
  | BeginCreate string
  | ListKeys string
  | ContainerExists string string
  | CreateContainer string string
  | DeleteContainer string string
  | GetContainerProperties string string

record container_properties =
  properties_name :: string
  properties_last_modified :: string
  properties_etag :: string
  properties_lease_status :: "string option"

datatype azure_msg =
    Az_error_checking_account azure_exn
  | Az_error_checking_container azure_exn
  | Az_failed_to_get_blob_service_client azure_exn
  | Az_account_already_exists_skipping
  | Az_creating_account
  | Az_created_account
  | Az_account_created_by_another_process
  | Az_failed_to_create_account azure_exn
  | Az_container_already_exists_skipping
  | Az_creating_container
  | Az_created_container
  | Az_container_created_by_another_process
  | Az_failed_to_create_container azure_exn
  | Az_container_does_not_exist_skipping
  | Az_deleting_container
  | Az_deleted_container
  | Az_container_was_already_deleted
  | Az_failed_to_delete_container azure_exn
  | Az_container_does_not_exist
  | Az_container_exists
  | Az_container_details string string string string
  | Az_could_not_retrieve_details azure_exn

text \<open>
  The client. \<open>az_get_properties\<close> and \<open>az_begin_create\<close> (with the wait for the
  poller's result) are calls of the storage management client on an account;
  \<open>az_list_keys\<close> answers \<^verbatim>\<open>keys.keys[0].value\<close>; the other calls go through the
  blob service client of an account, on a container.
\<close>

record 'st azure_client =
  az_get_properties :: "string \<Rightarrow> 'st \<Rightarrow> (azure_exn + unit) \<times> 'st"
  az_begin_create :: "string \<Rightarrow> 'st \<Rightarrow> (azure_exn + unit) \<times> 'st"
  az_list_keys :: "string \<Rightarrow> 'st \<Rightarrow> (azure_exn + string) \<times> 'st"
  az_exists :: "string \<Rightarrow> string \<Rightarrow> 'st \<Rightarrow> (azure_exn + bool) \<times> 'st"
  az_create_container :: "string \<Rightarrow> string \<Rightarrow> 'st \<Rightarrow> (azure_exn + unit) \<times> 'st"
  az_delete_container :: "string \<Rightarrow> string \<Rightarrow> 'st \<Rightarrow> (azure_exn + unit) \<times> 'st"
  az_get_container_properties :: "string \<Rightarrow> string \<Rightarrow> 'st \<Rightarrow> (azure_exn + container_properties) \<times> 'st"

type_synonym 'st azure_world = "('st, azure_call, azure_msg) world"

definition storage_account_exists :: "'st azure_client \<Rightarrow> string \<Rightarrow> 'st azure_world \<Rightarrow> bool \<times> 'st azure_world" where
  "storage_account_exists az storage_account w =
     (case request (GetProperties storage_account) (az_get_properties az storage_account) w of
        (Inr _, w1) \<Rightarrow> (True, w1)
      | (Inl ResourceNotFoundError, w1) \<Rightarrow> (False, w1)
      | (Inl e, w1) \<Rightarrow> (False, say (Az_error_checking_account e) w1))"

text \<open>\<^verbatim>\<open>_get_blob_service_client\<close>: the account key is fetched; an exception is logged
  and raised again. The result is the key the connection string is built from.\<close>

definition get_blob_service_client :: "'st azure_client \<Rightarrow> string \<Rightarrow> 'st azure_world \<Rightarrow> (azure_exn + string) \<times> 'st azure_world" where
  "get_blob_service_client az storage_account w =
     (case request (ListKeys storage_account) (az_list_keys az storage_account) w of
        (Inr key, w1) \<Rightarrow> (Inr key, w1)
      | (Inl e, w1) \<Rightarrow> (Inl e, say (Az_failed_to_get_blob_service_client e) w1))"

definition container_exists :: "'st azure_client \<Rightarrow> string \<Rightarrow> string \<Rightarrow> 'st azure_world \<Rightarrow> bool \<times> 'st azure_world" where
  "container_exists az storage_account container_name w =
     (case get_blob_service_client az storage_account w of
        (Inr _, w1) \<Rightarrow>
          (case request (ContainerExists storage_account container_name)
                  (az_exists az storage_account container_name) w1 of
             (Inr found, w2) \<Rightarrow> (found, w2)
           | (Inl e, w2) \<Rightarrow> (False, say (Az_error_checking_container e) w2))
      | (Inl e, w1) \<Rightarrow> (False, say (Az_error_checking_container e) w1))"

definition create_storage_account :: "'st azure_client \<Rightarrow> string \<Rightarrow> 'st azure_world \<Rightarrow> bool \<times> 'st azure_world" where
  "create_storage_account az storage_account w =
     (case storage_account_exists az storage_account w of
        (True, w1) \<Rightarrow> (True, say Az_account_already_exists_skipping w1)
      | (False, w1) \<Rightarrow>
          (case request (BeginCreate storage_account) (az_begin_create az storage_account)
                  (say Az_creating_account w1) of
             (Inr _, w2) \<Rightarrow> (True, say Az_created_account w2)
           | (Inl ResourceExistsError, w2) \<Rightarrow> (True, say Az_account_created_by_another_process w2)
           | (Inl e, w2) \<Rightarrow> (False, say (Az_failed_to_create_account e) w2)))"

text \<open>The two handlers that close \<^verbatim>\<open>create_container\<close> (lines 147 to 152).\<close>

definition create_container_failed :: "azure_exn \<Rightarrow> 'st azure_world \<Rightarrow> bool \<times> 'st azure_world" where
  "create_container_failed e w =
     (case e of ResourceExistsError \<Rightarrow> (True, say Az_container_created_by_another_process w)
              | _ \<Rightarrow> (False, say (Az_failed_to_create_container e) w))"

definition create_container :: "'st azure_client \<Rightarrow> string \<Rightarrow> string \<Rightarrow> 'st azure_world \<Rightarrow> bool \<times> 'st azure_world" where
  "create_container az storage_account container_name w =
     (case create_storage_account az storage_account w of
        (False, w1) \<Rightarrow> (False, w1)
      | (True, w1) \<Rightarrow>
          (case container_exists az storage_account container_name w1 of
             (True, w2) \<Rightarrow> (True, say Az_container_already_exists_skipping w2)
           | (False, w2) \<Rightarrow>
               (case get_blob_service_client az storage_account (say Az_creating_container w2) of
                  (Inr _, w3) \<Rightarrow>
                    (case request (CreateContainer storage_account container_name)
                            (az_create_container az storage_account container_name) w3 of
                       (Inr _, w4) \<Rightarrow> (True, say Az_created_container w4)
                     | (Inl e, w4) \<Rightarrow> create_container_failed e w4)
                | (Inl e, w3) \<Rightarrow> create_container_failed e w3)))"

text \<open>The two handlers that close \<^verbatim>\<open>delete_container\<close> (lines 168 to 173).\<close>

definition delete_container_failed :: "azure_exn \<Rightarrow> 'st azure_world \<Rightarrow> bool \<times> 'st azure_world" where
  "delete_container_failed e w =
     (case e of ResourceNotFoundError \<Rightarrow> (True, say Az_container_was_already_deleted w)
              | _ \<Rightarrow> (False, say (Az_failed_to_delete_container e) w))"

definition delete_container :: "'st azure_client \<Rightarrow> string \<Rightarrow> string \<Rightarrow> 'st azure_world \<Rightarrow> bool \<times> 'st azure_world" where
  "delete_container az storage_account container_name w =
     (case container_exists az storage_account container_name w of
        (False, w1) \<Rightarrow> (True, say Az_container_does_not_exist_skipping w1)
      | (True, w1) \<Rightarrow>
          (case get_blob_service_client az storage_account (say Az_deleting_container w1) of
             (Inr _, w2) \<Rightarrow>
               (case request (DeleteContainer storage_account container_name)
                       (az_delete_container az storage_account container_name) w2 of
                  (Inr _, w3) \<Rightarrow> (True, say Az_deleted_container w3)
                | (Inl e, w3) \<Rightarrow> delete_container_failed e w3)
           | (Inl e, w2) \<Rightarrow> delete_container_failed e w2))"

definition check_container :: "'st azure_client \<Rightarrow> string \<Rightarrow> string \<Rightarrow> 'st azure_world \<Rightarrow> bool \<times> 'st azure_world" where
  "check_container az storage_account container_name w =
     (case container_exists az storage_account container_name w of
        (False, w1) \<Rightarrow> (False, say Az_container_does_not_exist w1)
      | (True, w1) \<Rightarrow>
          (case get_blob_service_client az storage_account (say Az_container_exists w1) of
             (Inr _, w2) \<Rightarrow>
               (case request (GetContainerProperties storage_account container_name)
                       (az_get_container_properties az storage_account container_name) w2 of
                  (Inr properties, w3) \<Rightarrow>
                    (True, say (Az_container_details (properties_name properties)
                                 (properties_last_modified properties)
                                 (properties_etag properties)
                                 (case properties_lease_status properties of
                                    Some status \<Rightarrow> status | None \<Rightarrow> ''None'')) w3)
                | (Inl e, w3) \<Rightarrow> (False, say (Az_could_not_retrieve_details e) w3))
           | (Inl e, w2) \<Rightarrow> (False, say (Az_could_not_retrieve_details e) w2)))"

section \<open>Reference providers\<close>

text \<open>
  Small providers on which the scripts can be run: an S3 and a GCS that remember their
  buckets, an Azure that remembers its storage accounts and the containers in them, and
  variants of them that answer as a provider does when a concurrent actor or a denied
  permission gets in the way.
\<close>

definition s3_memory :: "string list s3_client" where
  "s3_memory = \<lparr>
     s3_head_bucket = (\<lambda>b s. (if b \<in> set s then Inr () else Inl (ClientError ''404''), s)),
     s3_create_bucket = (\<lambda>b l s.
        if b \<in> set s then (Inl (ClientError ''BucketAlreadyOwnedByYou''), s) else (Inr (), s @ [b])),
     s3_delete_all_objects = (\<lambda>r b s.
        (if b \<in> set s then Inr () else Inl (ClientError ''NoSuchBucket''), s)),
     s3_delete_bucket = (\<lambda>b s.
        if b \<in> set s then (Inr (), removeAll b s) else (Inl (ClientError ''NoSuchBucket''), s)),
     s3_get_bucket_location = (\<lambda>b s.
        (if b \<in> set s then Inr (Some None) else Inl (ClientError ''NoSuchBucket''), s)),
     s3_list_buckets = (\<lambda>s. (Inr (map (\<lambda>b. (b, ''2024-01-01'')) s), s))\<rparr>"

text \<open>Another creator wins the race between the probe and the creation.\<close>

definition s3_raced_create :: "string list s3_client" where
  "s3_raced_create = s3_memory\<lparr>s3_create_bucket :=
     (\<lambda>b l s. (Inl (ClientError ''BucketAlreadyOwnedByYou''), s @ [b]))\<rparr>"

text \<open>Another deleter wins the race between the probe and the deletion.\<close>

definition s3_raced_delete :: "string list s3_client" where
  "s3_raced_delete = s3_memory\<lparr>s3_delete_bucket :=
     (\<lambda>b s. (Inl (ClientError ''NoSuchBucket''), removeAll b s))\<rparr>"

text \<open>The connection fails while the objects are deleted.\<close>

definition s3_objects_unreachable :: "string list s3_client" where
  "s3_objects_unreachable = s3_memory\<lparr>s3_delete_all_objects :=
     (\<lambda>r b s. (Inl OtherBotoError, s))\<rparr>"

text \<open>The objects cannot be deleted: the SDK reports a \<^verbatim>\<open>ClientError\<close>.\<close>

definition s3_objects_denied :: "string list s3_client" where
  "s3_objects_denied = s3_memory\<lparr>s3_delete_all_objects :=
     (\<lambda>r b s. (Inl (ClientError ''AccessDenied''), s))\<rparr>"

text \<open>The caller may not look at buckets.\<close>

definition s3_forbidden :: "string list s3_client" where
  "s3_forbidden = s3_memory\<lparr>s3_head_bucket := (\<lambda>b s. (Inl (ClientError ''403''), s))\<rparr>"

definition gcs_memory :: "(string \<times> string list) list gcs_client" where
  "gcs_memory = \<lparr>
     gcs_get_bucket = (\<lambda>b s.
        (if b \<in> fst ` set s
         then Inr \<lparr>bucket_location = ''US'', bucket_storage_class = ''STANDARD'',
                   bucket_time_created = ''2024-01-01''\<rparr>
         else Inl NotFound, s)),
     gcs_create_bucket = (\<lambda>b l c s.
        if b \<in> fst ` set s then (Inl Conflict, s) else (Inr (), s @ [(b, [])])),
     gcs_list_blobs = (\<lambda>b s.
        (case map_of s b of Some blobs \<Rightarrow> Inr blobs | None \<Rightarrow> Inl NotFound, s)),
     gcs_delete_blobs = (\<lambda>b blobs s.
        if b \<in> fst ` set s
        then (Inr (), map (\<lambda>(n, os). if n = b then (n, filter (\<lambda>x. x \<notin> set blobs) os) else (n, os)) s)
        else (Inl NotFound, s)),
     gcs_bucket_delete = (\<lambda>b s.
        if b \<in> fst ` set s then (Inr (), filter (\<lambda>p. fst p \<noteq> b) s) else (Inl NotFound, s))\<rparr>"

definition gcs_raced_create :: "(string \<times> string list) list gcs_client" where
  "gcs_raced_create = gcs_memory\<lparr>gcs_create_bucket :=
     (\<lambda>b l c s. (Inl Conflict, s @ [(b, [])]))\<rparr>"

definition gcs_raced_delete :: "(string \<times> string list) list gcs_client" where
  "gcs_raced_delete = gcs_memory\<lparr>gcs_bucket_delete :=
     (\<lambda>b s. (Inl NotFound, filter (\<lambda>p. fst p \<noteq> b) s))\<rparr>"

definition gcs_objects_denied :: "(string \<times> string list) list gcs_client" where
  "gcs_objects_denied = gcs_memory\<lparr>gcs_delete_blobs := (\<lambda>b blobs s. (Inl Forbidden, s))\<rparr>"

definition gcs_forbidden :: "(string \<times> string list) list gcs_client" where
  "gcs_forbidden = gcs_memory\<lparr>gcs_get_bucket := (\<lambda>b s. (Inl Forbidden, s))\<rparr>"

text \<open>The state of the Azure provider: its storage accounts, and its containers as pairs
  of an account and a container name.\<close>

definition azure_memory :: "(string list \<times> (string \<times> string) list) azure_client" where
  "azure_memory = \<lparr>
     az_get_properties = (\<lambda>a s.
        (if a \<in> set (fst s) then Inr () else Inl ResourceNotFoundError, s)),
     az_begin_create = (\<lambda>a s.
        if a \<in> set (fst s) then (Inl ResourceExistsError, s) else (Inr (), (fst s @ [a], snd s))),
     az_list_keys = (\<lambda>a s.
        (if a \<in> set (fst s) then Inr ''key'' else Inl ResourceNotFoundError, s)),
     az_exists = (\<lambda>a c s. (Inr ((a, c) \<in> set (snd s)), s)),
     az_create_container = (\<lambda>a c s.
        if (a, c) \<in> set (snd s) then (Inl ResourceExistsError, s)
        else (Inr (), (fst s, snd s @ [(a, c)]))),
     az_delete_container = (\<lambda>a c s.
        if (a, c) \<in> set (snd s) then (Inr (), (fst s, removeAll (a, c) (snd s)))
        else (Inl ResourceNotFoundError, s)),
     az_get_container_properties = (\<lambda>a c s.
        (if (a, c) \<in> set (snd s)
         then Inr \<lparr>properties_name = c, properties_last_modified = ''2024-01-01'',
                   properties_etag = ''0x1'', properties_lease_status = None\<rparr>
         else Inl ResourceNotFoundError, s))\<rparr>"

definition azure_raced_create :: "(string list \<times> (string \<times> string) list) azure_client" where
  "azure_raced_create = azure_memory\<lparr>az_create_container :=
     (\<lambda>a c s. (Inl ResourceExistsError, (fst s, snd s @ [(a, c)])))\<rparr>"

definition azure_raced_delete :: "(string list \<times> (string \<times> string) list) azure_client" where
  "azure_raced_delete = azure_memory\<lparr>az_delete_container :=
     (\<lambda>a c s. (Inl ResourceNotFoundError, (fst s, removeAll (a, c) (snd s))))\<rparr>"

definition azure_forbidden :: "(string list \<times> (string \<times> string) list) azure_client" where
  "azure_forbidden = azure_memory\<lparr>az_exists := (\<lambda>a c s. (Inl (HttpResponseError 403), s))\<rparr>"

section \<open>Properties of the storage account name\<close>

lemma length_le_bytes: "length (le_bytes k n) = k"
  by (simp add: le_bytes_def)

lemma length_md5_digest: "length (md5_digest m) = 16"
  by (simp add: md5_digest_def Let_def length_le_bytes split: prod.split)

lemma length_concat_hex_byte: "length (concat (map hex_byte bs)) = 2 * length bs"
  by (induction bs) (simp_all add: hex_byte_def)

lemma length_md5_hexdigest: "length (md5_hexdigest m) = 32"
  by (simp add: md5_hexdigest_def length_concat_hex_byte length_md5_digest)

lemma str_nat_last: "\<exists>ys. str_nat m = ys @ [digit_char (m mod 10)]"
  by (subst str_nat.simps) auto

lemma str_nat_step: "10 \<le> n \<Longrightarrow> str_nat n = str_nat (n div 10) @ [digit_char (n mod 10)]"
  by (subst str_nat.simps) simp

lemma str_nat_last4:
  assumes "1000 \<le> n"
  shows "last_chars 4 (str_nat n) =
           [digit_char (n div 1000 mod 10), digit_char (n div 100 mod 10),
            digit_char (n div 10 mod 10), digit_char (n mod 10)]"
proof -
  have big: "10 \<le> n" "10 \<le> n div 10" "10 \<le> n div 10 div 10"
    using assms by auto
  obtain ys where "str_nat (n div 10 div 10 div 10) =
      ys @ [digit_char (n div 10 div 10 div 10 mod 10)]"
    using str_nat_last by blast
  with big have "str_nat n =
      ys @ [digit_char (n div 10 div 10 div 10 mod 10), digit_char (n div 10 div 10 mod 10),
            digit_char (n div 10 mod 10), digit_char (n mod 10)]"
    by (simp add: str_nat_step)
  then show ?thesis
    by (simp add: last_chars_def div_mult2_eq [symmetric])
qed

lemma length_timestamp: "1000 \<le> now \<Longrightarrow> length (last_chars 4 (str_int now)) = 4"
  by (simp add: str_int_def str_nat_last4)


lemma digit_char_inj:
  assumes "a < 10" "b < 10"
  shows "digit_char a = digit_char b \<longleftrightarrow> a = b"
proof
  assume "digit_char a = digit_char b"
  then have "(of_char (char_of (48 + a)) :: nat) = of_char (char_of (48 + b))"
    by (simp add: digit_char_def)
  with assms show "a = b" by simp
qed simp

lemma digit_via_mod: "0 < k \<Longrightarrow> (n::nat) div k mod 10 = n mod (k * 10) div k"
  using mod_mult2_eq [of n k 10] by simp

lemma last4_decomp:
  "(n::nat) mod 10000 = 1000 * (n div 1000 mod 10) + (100 * (n div 100 mod 10)
      + (10 * (n div 10 mod 10) + n mod 10))"
proof -
  have e3: "n mod 10000 = 1000 * (n div 1000 mod 10) + n mod 1000"
    using mod_mult2_eq [of n 1000 10] by simp
  have e2: "n mod 1000 = 100 * (n div 100 mod 10) + n mod 100"
    using mod_mult2_eq [of n 100 10] by simp
  have e1: "n mod 100 = 10 * (n div 10 mod 10) + n mod 10"
    using mod_mult2_eq [of n 10 10] by simp
  show ?thesis
    by (simp only: e3 e2 e1)
qed

lemma last4_digits_eq:
  fixes n m :: nat
  shows "(n div 1000 mod 10 = m div 1000 mod 10 \<and> n div 100 mod 10 = m div 100 mod 10 \<and>
          n div 10 mod 10 = m div 10 mod 10 \<and> n mod 10 = m mod 10)
         \<longleftrightarrow> n mod 10000 = m mod 10000"
proof
  assume "n div 1000 mod 10 = m div 1000 mod 10 \<and> n div 100 mod 10 = m div 100 mod 10 \<and>
          n div 10 mod 10 = m div 10 mod 10 \<and> n mod 10 = m mod 10"
  then show "n mod 10000 = m mod 10000"
    by (simp only: last4_decomp)
next
  assume eq: "n mod 10000 = m mod 10000"
  have r: "x mod 10000 mod 1000 = x mod 1000" "x mod 10000 mod 100 = x mod 100"
    "x mod 10000 mod 10 = x mod 10" for x :: nat
    by (simp_all add: mod_mod_cancel)
  have s: "n mod 1000 = m mod 1000" "n mod 100 = m mod 100" "n mod 10 = m mod 10"
    using r [of n, symmetric] r [of m, symmetric] eq by simp_all
  have d: "x div 1000 mod 10 = x mod 10000 div 1000" "x div 100 mod 10 = x mod 1000 div 100"
    "x div 10 mod 10 = x mod 100 div 10" for x :: nat
    using digit_via_mod [of 1000 x] digit_via_mod [of 100 x] digit_via_mod [of 10 x]
    by simp_all
  show "n div 1000 mod 10 = m div 1000 mod 10 \<and> n div 100 mod 10 = m div 100 mod 10 \<and>
          n div 10 mod 10 = m div 10 mod 10 \<and> n mod 10 = m mod 10"
    by (simp only: d eq s)
qed

lemma nat_mod_eq_iff:
  assumes "0 \<le> x" "0 \<le> y"
  shows "nat x mod 10000 = nat y mod 10000 \<longleftrightarrow> x mod 10000 = y mod 10000"
proof -
  have i: "int (nat z mod 10000) = z mod 10000" if "0 \<le> z" for z
    using that by (simp add: zmod_int)
  have "nat x mod 10000 = nat y mod 10000
        \<longleftrightarrow> int (nat x mod 10000) = int (nat y mod 10000)"
    by (simp only: of_nat_eq_iff)
  then show ?thesis
    using assms by (simp only: i)
qed

lemma timestamp_eq_iff:
  assumes "1000 \<le> now" "1000 \<le> now'"
  shows "last_chars 4 (str_int now) = last_chars 4 (str_int now')
         \<longleftrightarrow> now mod 10000 = now' mod 10000"
proof -
  have n: "1000 \<le> nat now" "1000 \<le> nat now'"
    using assms by auto
  have "last_chars 4 (str_int now) = last_chars 4 (str_int now')
        \<longleftrightarrow> nat now mod 10000 = nat now' mod 10000"
    using assms
    by (simp add: str_int_def str_nat_last4 [OF n(1)] str_nat_last4 [OF n(2)]
          digit_char_inj last4_digits_eq)
  also have "\<dots> \<longleftrightarrow> now mod 10000 = now' mod 10000"
    using assms by (intro nat_mod_eq_iff) simp_all
  finally show ?thesis .
qed

text \<open>
  C1. The claim: the canonical id is a function of the logical name alone; where a
  globally unique name is needed it embeds only a stable hash of the name, no time-based
  component, so it does not depend on the time of invocation.
  The generator reads the clock: the same container name at two consecutive seconds gives
  two different storage account names.
\<close>

theorem generate_storage_account_name_depends_on_time:
  "generate_storage_account_name 1700000000 ''my-container''
     \<noteq> generate_storage_account_name 1700000001 ''my-container''"
proof -
  have "last_chars 4 (str_int 1700000000) \<noteq> last_chars 4 (str_int 1700000001)"
    by (simp add: timestamp_eq_iff)
  moreover have "length (last_chars 4 (str_int 1700000000)) = 4"
    "length (last_chars 4 (str_int 1700000001)) = 4"
    by (simp_all add: length_timestamp)
  ultimately show ?thesis
    by (simp add: generate_storage_account_name_def Let_def length_md5_hexdigest)
qed

text \<open>
  C1, as the code has it. The id is a function of the container name and of the clock
  reading; between two readings of at least 1000 seconds it is the same exactly when the
  readings agree in their last four decimal digits. The name enters through its
  lowercased, dash-free prefix and the first four hexadecimal digits of its MD5.
\<close>

theorem generate_storage_account_name_same_iff:
  assumes "1000 \<le> now" "1000 \<le> now'"
  shows "generate_storage_account_name now container_name
           = generate_storage_account_name now' container_name
         \<longleftrightarrow> now mod 10000 = now' mod 10000"
proof -
  have four: "length (last_chars 4 (str_int now)) = 4" "length (last_chars 4 (str_int now')) = 4"
    using assms by (simp_all add: length_timestamp)
  have "generate_storage_account_name now container_name
           = generate_storage_account_name now' container_name
        \<longleftrightarrow> last_chars 4 (str_int now) = last_chars 4 (str_int now')"
    using four by (simp add: generate_storage_account_name_def Let_def length_md5_hexdigest)
  then show ?thesis
    using assms by (simp add: timestamp_eq_iff)
qed

theorem generate_storage_account_name_same_iff_witness:
  "generate_storage_account_name 1700000000 ''my-container''
     = generate_storage_account_name 1700010000 ''my-container''
   \<and> generate_storage_account_name 1700000000 ''my-container''
     \<noteq> generate_storage_account_name 1700000007 ''my-container''"
  using generate_storage_account_name_same_iff [of 1700000000 1700010000 "''my-container''"]
    generate_storage_account_name_same_iff [of 1700000000 1700000007 "''my-container''"]
  by simp




section \<open>Races on creation and deletion\<close>

lemmas world_simps = request_def say_def start_def

lemmas aws_defs = bucket_exists_def aws_create_bucket_def aws_delete_bucket_def
  aws_delete_bucket_call_def aws_check_bucket_def

lemmas gcp_defs = gcp_create_bucket_def gcp_create_failed_def gcp_delete_bucket_def
  gcp_delete_failed_def gcp_delete_objects_def gcp_check_bucket_def

lemmas azure_defs = storage_account_exists_def get_blob_service_client_def
  container_exists_def create_storage_account_def create_container_def
  create_container_failed_def delete_container_def delete_container_failed_def
  check_container_def

lemmas fixture_defs = s3_memory_def s3_raced_create_def s3_raced_delete_def
  s3_objects_unreachable_def s3_objects_denied_def s3_forbidden_def
  gcs_memory_def gcs_raced_create_def gcs_raced_delete_def gcs_objects_denied_def
  gcs_forbidden_def azure_memory_def azure_raced_create_def azure_raced_delete_def
  azure_forbidden_def

text \<open>
  C2. The claim: on every backend, a create call that reports "already exists" or
  "already owned by caller" gives the outcome success.
  On GCP it does not: the probe finds no bucket, the creation reports
  \<^verbatim>\<open>Conflict\<close>, and \<^verbatim>\<open>create_bucket\<close> returns \<^verbatim>\<open>False\<close>.
\<close>

theorem gcp_create_conflict_fails:
  "gcp_create_bucket gcs_raced_create ''my-data'' ''US'' ''STANDARD'' (start [])
     = (False, \<lparr>backend = [(''my-data'', [])],
                 calls = [GetBucket ''my-data'', CreateBucketIn ''my-data'' ''US'' ''STANDARD''],
                 out = [Gcs_conflict]\<rparr>)"
  by (simp add: gcp_defs world_simps fixture_defs)

text \<open>
  C2, as the code has it. On AWS, a creation that reports \<^verbatim>\<open>BucketAlreadyExists\<close> or
  \<^verbatim>\<open>BucketAlreadyOwnedByYou\<close> returns \<^verbatim>\<open>True\<close> (exit status 0); on Azure, a
  container creation that raises \<^verbatim>\<open>ResourceExistsError\<close> returns \<^verbatim>\<open>True\<close>; on
  GCP, a creation that raises \<^verbatim>\<open>Conflict\<close> returns \<^verbatim>\<open>False\<close> and prints the
  conflict.
\<close>

theorem create_already_exists_outcome:
  "(s3_head_bucket s3 b (backend wa) = (Inl (ClientError ''404''), s1) \<longrightarrow>
    s3_create_bucket s3 b (if region = ''us-east-1'' then None else Some region) s1
      = (Inl (ClientError code), s2) \<longrightarrow>
    code = ''BucketAlreadyExists'' \<or> code = ''BucketAlreadyOwnedByYou'' \<longrightarrow>
      fst (aws_create_bucket s3 b region wa) = Returns True
      \<and> aws_exit_status (fst (aws_create_bucket s3 b region wa)) = 0)
   \<and> (create_storage_account az a wz = (True, w1) \<longrightarrow>
      container_exists az a c w1 = (False, w2) \<longrightarrow>
      az_list_keys az a (backend w2) = (Inr key, t1) \<longrightarrow>
      az_create_container az a c t1 = (Inl ResourceExistsError, t2) \<longrightarrow>
        fst (create_container az a c wz) = True
        \<and> last (out (snd (create_container az a c wz))) = Az_container_created_by_another_process)
   \<and> (gcs_get_bucket gcs b (backend wg) = (Inl NotFound, u1) \<longrightarrow>
      gcs_create_bucket gcs b l sc u1 = (Inl Conflict, u2) \<longrightarrow>
        fst (gcp_create_bucket gcs b l sc wg) = False
        \<and> last (out (snd (gcp_create_bucket gcs b l sc wg))) = Gcs_conflict)"
  by (auto simp: aws_create_bucket_def bucket_exists_def aws_exit_status_def
      create_container_def create_container_failed_def get_blob_service_client_def
      gcp_create_bucket_def gcp_create_failed_def world_simps)

theorem create_already_exists_outcome_witness:
  "fst (aws_create_bucket s3_raced_create ''my-data'' ''r1'' (start [])) = Returns True
   \<and> fst (create_container azure_raced_create ''acct'' ''c1'' (start ([], []))) = True
   \<and> fst (gcp_create_bucket gcs_raced_create ''my-data'' ''US'' ''STANDARD'' (start [])) = False"
  using create_already_exists_outcome
    [of s3_raced_create "''my-data''" "start []" "[]" "''r1''" "''BucketAlreadyOwnedByYou''"
      "[''my-data'']"
      azure_raced_create "''acct''" "start ([], [])"
      "snd (create_storage_account azure_raced_create ''acct'' (start ([], [])))"
      "''c1''"
      "snd (container_exists azure_raced_create ''acct'' ''c1''
         (snd (create_storage_account azure_raced_create ''acct'' (start ([], [])))))"
      "''key''" "([''acct''], [])" "([''acct''], [(''acct'', ''c1'')])"
      gcs_raced_create "start []" "[]" "''US''" "''STANDARD''" "[(''my-data'', [])]"]
  by (simp add: azure_defs world_simps fixture_defs)


text \<open>
  C4. The claim: on every backend, a delete call that reports "already deleted" or
  "not found" gives the outcome success.
  On AWS it does not: the probe finds the bucket, the deletion reports
  \<^verbatim>\<open>NoSuchBucket\<close>, and \<^verbatim>\<open>delete_bucket\<close> returns \<^verbatim>\<open>False\<close>.
\<close>

theorem aws_delete_not_found_fails:
  "aws_delete_bucket s3_raced_delete ''my-data'' ''r1'' (start [''my-data''])
     = (Returns False,
        \<lparr>backend = [],
         calls = [HeadBucket ''my-data'', DeleteAllObjects ''r1'' ''my-data'',
                  DeleteBucket ''my-data''],
         out = [S3_deleting, S3_attempting_to_empty, S3_emptied,
                S3_failed_to_delete ''NoSuchBucket'']\<rparr>)"
  by (simp add: aws_defs world_simps fixture_defs)

text \<open>
  C4, as the code has it. On Azure, a container deletion that raises
  \<^verbatim>\<open>ResourceNotFoundError\<close> returns \<^verbatim>\<open>True\<close>; on GCP, a bucket deletion that
  raises \<^verbatim>\<open>NotFound\<close> returns \<^verbatim>\<open>True\<close>; on AWS, a bucket deletion that raises
  a \<^verbatim>\<open>ClientError\<close>, whatever its code, returns \<^verbatim>\<open>False\<close> (exit status 1).
\<close>

theorem delete_not_found_outcome:
  "(container_exists az a c wz = (True, w1) \<longrightarrow>
    az_list_keys az a (backend w1) = (Inr key, t1) \<longrightarrow>
    az_delete_container az a c t1 = (Inl ResourceNotFoundError, t2) \<longrightarrow>
      fst (delete_container az a c wz) = True
      \<and> last (out (snd (delete_container az a c wz))) = Az_container_was_already_deleted)
   \<and> (request (GetBucket b) (gcs_get_bucket gcs b) wg = (Inr m, v1) \<longrightarrow>
      gcs_bucket_delete gcs b (backend (gcp_delete_objects gcs b v1)) = (Inl NotFound, u2) \<longrightarrow>
        fst (gcp_delete_bucket gcs b wg) = True
        \<and> last (out (snd (gcp_delete_bucket gcs b wg))) = Gcs_does_not_exist)
   \<and> (s3_head_bucket s3 b (backend wa) = (Inr (), s1) \<longrightarrow>
      s3_delete_all_objects s3 region b s1 = (emptied, s2) \<longrightarrow>
      emptied \<noteq> Inl OtherBotoError \<longrightarrow>
      s3_delete_bucket s3 b s2 = (Inl (ClientError code), s3') \<longrightarrow>
        fst (aws_delete_bucket s3 b region wa) = Returns False
        \<and> aws_exit_status (fst (aws_delete_bucket s3 b region wa)) = 1)"
proof (intro conjI impI)
  assume "container_exists az a c wz = (True, w1)"
    "az_list_keys az a (backend w1) = (Inr key, t1)"
    "az_delete_container az a c t1 = (Inl ResourceNotFoundError, t2)"
  then show "fst (delete_container az a c wz) = True"
    "last (out (snd (delete_container az a c wz))) = Az_container_was_already_deleted"
    by (simp_all add: delete_container_def delete_container_failed_def
        get_blob_service_client_def world_simps)
next
  assume "request (GetBucket b) (gcs_get_bucket gcs b) wg = (Inr m, v1)"
    "gcs_bucket_delete gcs b (backend (gcp_delete_objects gcs b v1)) = (Inl NotFound, u2)"
  then show "fst (gcp_delete_bucket gcs b wg) = True"
    "last (out (snd (gcp_delete_bucket gcs b wg))) = Gcs_does_not_exist"
    by (simp_all add: gcp_delete_bucket_def gcp_delete_failed_def
        request_def [of "BucketDelete b"] say_def)
next
  assume h: "s3_head_bucket s3 b (backend wa) = (Inr (), s1)"
    "s3_delete_all_objects s3 region b s1 = (emptied, s2)"
    "emptied \<noteq> Inl OtherBotoError"
    "s3_delete_bucket s3 b s2 = (Inl (ClientError code), s3')"
  then have "fst (aws_delete_bucket s3 b region wa) = Returns False"
    by (cases emptied)
      (auto simp: aws_delete_bucket_def aws_delete_bucket_call_def bucket_exists_def world_simps
        split: aws_exn.splits)
  then show "fst (aws_delete_bucket s3 b region wa) = Returns False"
    "aws_exit_status (fst (aws_delete_bucket s3 b region wa)) = 1"
    by (simp_all add: aws_exit_status_def)
qed

theorem delete_not_found_outcome_witness:
  "fst (delete_container azure_raced_delete ''acct'' ''c1''
          (start ([''acct''], [(''acct'', ''c1'')]))) = True
   \<and> fst (gcp_delete_bucket gcs_raced_delete ''my-data'' (start [(''my-data'', [])])) = True
   \<and> fst (aws_delete_bucket s3_raced_delete ''my-data'' ''r1'' (start [''my-data'']))
       = Returns False"
  using delete_not_found_outcome
    [of azure_raced_delete "''acct''" "''c1''" "start ([''acct''], [(''acct'', ''c1'')])"
      "snd (container_exists azure_raced_delete ''acct'' ''c1''
         (start ([''acct''], [(''acct'', ''c1'')])))"
      "''key''" "([''acct''], [(''acct'', ''c1'')])" "([''acct''], [])"
      "''my-data''" gcs_raced_delete "start [(''my-data'', [])]"
      "\<lparr>bucket_location = ''US'', bucket_storage_class = ''STANDARD'',
         bucket_time_created = ''2024-01-01''\<rparr>"
      "snd (request (GetBucket ''my-data'') (gcs_get_bucket gcs_raced_delete ''my-data'')
         (start [(''my-data'', [])]))"
      "[]"
      s3_raced_delete "start [''my-data'']" "[''my-data'']" "''r1''" "Inr ()" "[''my-data'']"
      "''NoSuchBucket''" "[]"]
  by (simp add: azure_defs gcp_defs world_simps fixture_defs)


section \<open>Access denied on the existence probe\<close>





section \<open>Idempotence\<close>









section \<open>Order of the calls\<close>

text \<open>
  C7. The claim: in every ensure-present cycle the existence probe on the target comes
  first, and the parent is ensured only after that probe, never before it.
  \<^verbatim>\<open>create_container\<close> of Azure starts with \<^verbatim>\<open>create_storage_account\<close>: on an
  Azure without storage accounts the account is looked up and created before the
  container is probed.
\<close>

theorem azure_parent_ensured_before_probe:
  "calls (snd (create_container azure_memory ''acct'' ''c1'' (start ([], []))))
     = [GetProperties ''acct'', BeginCreate ''acct'', ListKeys ''acct'',
        ContainerExists ''acct'' ''c1'', ListKeys ''acct'', CreateContainer ''acct'' ''c1'']"
  by (simp add: azure_defs world_simps fixture_defs)

lemma calls_of_container_exists:
  "\<exists>cs. calls (snd (container_exists az a c w)) = calls w @ ListKeys a # cs"
  by (auto simp: container_exists_def get_blob_service_client_def world_simps
      split: prod.splits sum.splits)

lemma calls_after_container_exists:
  assumes "create_storage_account az a w = (True, w1)"
  shows "\<exists>cs. calls (snd (create_container az a c w))
           = calls (snd (container_exists az a c w1)) @ cs"
proof (cases "container_exists az a c w1")
  case (Pair found w2)
  show ?thesis
  proof (cases found)
    case True
    with Pair assms show ?thesis
      by (simp add: create_container_def say_def)
  next
    case False
    with Pair assms show ?thesis
      by (auto simp: create_container_def get_blob_service_client_def
          create_container_failed_def world_simps
          split: prod.splits sum.splits azure_exn.splits)
  qed
qed

text \<open>
  C7, as the code has it. On Azure the parent is ensured first: the first call of
  \<^verbatim>\<open>create_container\<close> is the lookup of the storage account, which is created when
  the lookup does not find it; when that fails the cycle fails without probing the
  container, and when it succeeds the next call opens the probe of the container
  (the account keys, then the existence of the container). On the flat providers there
  is no parent, and the existence probe is the first call.
\<close>

theorem ensure_present_order:
  "take (Suc (length (calls wz))) (calls (snd (create_container az a c wz)))
     = calls wz @ [GetProperties a]
   \<and> (calls (snd (create_storage_account az a wz)) = calls wz @ [GetProperties a]
      \<or> calls (snd (create_storage_account az a wz))
          = calls wz @ [GetProperties a, BeginCreate a])
   \<and> (fst (create_storage_account az a wz) = False \<longrightarrow>
        create_container az a c wz = (False, snd (create_storage_account az a wz)))
   \<and> (fst (create_storage_account az a wz) = True \<longrightarrow>
        take (Suc (length (calls (snd (create_storage_account az a wz)))))
            (calls (snd (create_container az a c wz)))
          = calls (snd (create_storage_account az a wz)) @ [ListKeys a])
   \<and> take (Suc (length (calls wa))) (calls (snd (aws_create_bucket s3 b region wa)))
       = calls wa @ [HeadBucket b]
   \<and> take (Suc (length (calls wg))) (calls (snd (gcp_create_bucket gcs b l sc wg)))
       = calls wg @ [GetBucket b]"
proof (intro conjI impI)
  show p: "calls (snd (create_storage_account az a wz)) = calls wz @ [GetProperties a]
      \<or> calls (snd (create_storage_account az a wz))
          = calls wz @ [GetProperties a, BeginCreate a]"
    by (auto simp: create_storage_account_def storage_account_exists_def world_simps
        split: prod.splits sum.splits azure_exn.splits bool.splits)
  show f: "create_container az a c wz = (False, snd (create_storage_account az a wz))"
    if "fst (create_storage_account az a wz) = False"
    using that by (cases "create_storage_account az a wz") (simp add: create_container_def)
  show t: "take (Suc (length (calls (snd (create_storage_account az a wz)))))
            (calls (snd (create_container az a c wz)))
          = calls (snd (create_storage_account az a wz)) @ [ListKeys a]"
    if "fst (create_storage_account az a wz) = True"
  proof -
    have w1: "create_storage_account az a wz = (True, snd (create_storage_account az a wz))"
      using that by (cases "create_storage_account az a wz") simp
    define w1 where "w1 = snd (create_storage_account az a wz)"
    note w1 = w1 [folded w1_def]
    obtain cs where cs: "calls (snd (container_exists az a c w1)) = calls w1 @ ListKeys a # cs"
      using calls_of_container_exists by blast
    obtain cs' where "calls (snd (create_container az a c wz))
        = calls (snd (container_exists az a c w1)) @ cs'"
      using calls_after_container_exists [OF w1] by blast
    with cs show ?thesis
      by (simp add: w1_def)
  qed
  show "take (Suc (length (calls wz))) (calls (snd (create_container az a c wz)))
     = calls wz @ [GetProperties a]"
  proof (cases "fst (create_storage_account az a wz)")
    case True
    have "take (Suc (length (calls wz))) (calls (snd (create_container az a c wz)))
        = take (Suc (length (calls wz)))
            (take (Suc (length (calls (snd (create_storage_account az a wz)))))
               (calls (snd (create_container az a c wz))))"
      using p by (auto simp: min_def)
    also have "\<dots> = calls wz @ [GetProperties a]"
      using p t True by auto
    finally show ?thesis .
  next
    case False
    then show ?thesis
      using p f by auto
  qed
  show "take (Suc (length (calls wa))) (calls (snd (aws_create_bucket s3 b region wa)))
       = calls wa @ [HeadBucket b]"
    by (auto simp: aws_create_bucket_def bucket_exists_def world_simps Let_def
        split: prod.splits sum.splits aws_exn.splits result.splits bool.splits)
  show "take (Suc (length (calls wg))) (calls (snd (gcp_create_bucket gcs b l sc wg)))
       = calls wg @ [GetBucket b]"
    by (auto simp: gcp_create_bucket_def gcp_create_failed_def world_simps
        split: prod.splits sum.splits gcp_exn.splits)
qed

theorem ensure_present_order_witness:
  "fst (create_storage_account azure_memory ''acct'' (start ([], []))) = True
   \<and> take 3 (calls (snd (create_container azure_memory ''acct'' ''c1'' (start ([], [])))))
       = [GetProperties ''acct'', BeginCreate ''acct'', ListKeys ''acct'']
   \<and> fst (create_storage_account azure_forbidden ''acct'' (start ([''acct''], []))) = True
   \<and> take 2 (calls (snd (create_container azure_forbidden ''acct'' ''c1''
                           (start ([''acct''], [])))))
       = [GetProperties ''acct'', ListKeys ''acct'']
   \<and> take 1 (calls (snd (aws_create_bucket s3_memory ''my-data'' ''r1'' (start []))))
       = [HeadBucket ''my-data'']
   \<and> take 1 (calls (snd (gcp_create_bucket gcs_memory ''my-data'' ''US'' ''STANDARD''
                           (start []))))
       = [GetBucket ''my-data'']"
  using ensure_present_order
    [of "start ([], [])" azure_memory "''acct''" "''c1''"
      "start []" s3_memory "''my-data''" "''r1''"
      "start []" gcs_memory "''US''" "''STANDARD''"]
    ensure_present_order
    [of "start ([''acct''], [])" azure_forbidden "''acct''" "''c1''"
      "start []" s3_memory "''my-data''" "''r1''"
      "start []" gcs_memory "''US''" "''STANDARD''"]
  by (simp add: azure_defs aws_defs gcp_defs world_simps fixture_defs)


section \<open>Describe\<close>






section \<open>Cleanup before deletion\<close>

text \<open>
  C9. The claim: in every ensure-absent cycle on a present resource, a failure of the
  cleanup of the objects never prevents the delete call, and the outcome is that of the
  delete call alone.
  On AWS the cleanup is guarded by \<^verbatim>\<open>except ClientError\<close>: an exception of
  another class (here the connection failing while the objects are deleted) leaves
  \<^verbatim>\<open>delete_bucket\<close>, and the bucket is never deleted.
\<close>

theorem aws_cleanup_exception_prevents_delete:
  "aws_delete_bucket s3_objects_unreachable ''my-data'' ''r1'' (start [''my-data''])
     = (Raises OtherBotoError,
        \<lparr>backend = [''my-data''],
         calls = [HeadBucket ''my-data'', DeleteAllObjects ''r1'' ''my-data''],
         out = [S3_deleting, S3_attempting_to_empty]\<rparr>)
   \<and> aws_exit_status (Raises OtherBotoError) = 1"
  by (simp add: aws_defs aws_exit_status_def world_simps fixture_defs)

text \<open>
  C9, as the code has it. On AWS, when the cleanup raises a \<^verbatim>\<open>ClientError\<close>, the
  delete call is made next and the result is what the delete call gives, as after a
  cleanup that succeeded; when the cleanup raises another exception, the delete call is
  not made and the exception leaves \<^verbatim>\<open>delete_bucket\<close>. On GCP, whatever the cleanup
  does, the delete call is the last call of the cycle and the result is \<^verbatim>\<open>True\<close>
  exactly when it succeeds or reports \<^verbatim>\<open>NotFound\<close>.
\<close>

theorem cleanup_failure_outcome:
  "(s3_head_bucket s3 b (backend wa) = (Inr (), s1) \<longrightarrow>
      s3_delete_all_objects s3 region b s1 = (Inl (ClientError code), s2) \<longrightarrow>
        calls (snd (aws_delete_bucket s3 b region wa))
          = calls wa @ [HeadBucket b, DeleteAllObjects region b, DeleteBucket b]
        \<and> fst (aws_delete_bucket s3 b region wa)
            = (case fst (s3_delete_bucket s3 b s2) of
                 Inr _ \<Rightarrow> Returns True
               | Inl (ClientError _) \<Rightarrow> Returns False
               | Inl OtherBotoError \<Rightarrow> Raises OtherBotoError))
   \<and> (s3_head_bucket s3 b (backend wa) = (Inr (), s1) \<longrightarrow>
      s3_delete_all_objects s3 region b s1 = (Inr (), s2) \<longrightarrow>
        calls (snd (aws_delete_bucket s3 b region wa))
          = calls wa @ [HeadBucket b, DeleteAllObjects region b, DeleteBucket b]
        \<and> fst (aws_delete_bucket s3 b region wa)
            = (case fst (s3_delete_bucket s3 b s2) of
                 Inr _ \<Rightarrow> Returns True
               | Inl (ClientError _) \<Rightarrow> Returns False
               | Inl OtherBotoError \<Rightarrow> Raises OtherBotoError))
   \<and> (s3_head_bucket s3 b (backend wa) = (Inr (), s1) \<longrightarrow>
      s3_delete_all_objects s3 region b s1 = (Inl OtherBotoError, s2) \<longrightarrow>
        calls (snd (aws_delete_bucket s3 b region wa))
          = calls wa @ [HeadBucket b, DeleteAllObjects region b]
        \<and> fst (aws_delete_bucket s3 b region wa) = Raises OtherBotoError)
   \<and> (request (GetBucket b) (gcs_get_bucket gcs b) wg = (Inr m, v1) \<longrightarrow>
        calls (snd (gcp_delete_bucket gcs b wg))
          = calls (gcp_delete_objects gcs b v1) @ [BucketDelete b]
        \<and> fst (gcp_delete_bucket gcs b wg)
            = (case fst (gcs_bucket_delete gcs b (backend (gcp_delete_objects gcs b v1))) of
                 Inr _ \<Rightarrow> True
               | Inl NotFound \<Rightarrow> True
               | Inl _ \<Rightarrow> False))"
proof (intro conjI impI)
  assume "s3_head_bucket s3 b (backend wa) = (Inr (), s1)"
    "s3_delete_all_objects s3 region b s1 = (Inl (ClientError code), s2)"
  then show "calls (snd (aws_delete_bucket s3 b region wa))
          = calls wa @ [HeadBucket b, DeleteAllObjects region b, DeleteBucket b]"
    "fst (aws_delete_bucket s3 b region wa)
            = (case fst (s3_delete_bucket s3 b s2) of
                 Inr _ \<Rightarrow> Returns True
               | Inl (ClientError _) \<Rightarrow> Returns False
               | Inl OtherBotoError \<Rightarrow> Raises OtherBotoError)"
    by (auto simp: aws_delete_bucket_def aws_delete_bucket_call_def bucket_exists_def world_simps
        split: prod.splits sum.splits aws_exn.splits)
next
  assume "s3_head_bucket s3 b (backend wa) = (Inr (), s1)"
    "s3_delete_all_objects s3 region b s1 = (Inr (), s2)"
  then show "calls (snd (aws_delete_bucket s3 b region wa))
          = calls wa @ [HeadBucket b, DeleteAllObjects region b, DeleteBucket b]"
    "fst (aws_delete_bucket s3 b region wa)
            = (case fst (s3_delete_bucket s3 b s2) of
                 Inr _ \<Rightarrow> Returns True
               | Inl (ClientError _) \<Rightarrow> Returns False
               | Inl OtherBotoError \<Rightarrow> Raises OtherBotoError)"
    by (auto simp: aws_delete_bucket_def aws_delete_bucket_call_def bucket_exists_def world_simps
        split: prod.splits sum.splits aws_exn.splits)
next
  assume "s3_head_bucket s3 b (backend wa) = (Inr (), s1)"
    "s3_delete_all_objects s3 region b s1 = (Inl OtherBotoError, s2)"
  then show "calls (snd (aws_delete_bucket s3 b region wa))
          = calls wa @ [HeadBucket b, DeleteAllObjects region b]"
    "fst (aws_delete_bucket s3 b region wa) = Raises OtherBotoError"
    by (simp_all add: aws_delete_bucket_def bucket_exists_def world_simps)
next
  assume "request (GetBucket b) (gcs_get_bucket gcs b) wg = (Inr m, v1)"
  then show "calls (snd (gcp_delete_bucket gcs b wg))
          = calls (gcp_delete_objects gcs b v1) @ [BucketDelete b]"
    "fst (gcp_delete_bucket gcs b wg)
            = (case fst (gcs_bucket_delete gcs b (backend (gcp_delete_objects gcs b v1))) of
                 Inr _ \<Rightarrow> True
               | Inl NotFound \<Rightarrow> True
               | Inl _ \<Rightarrow> False)"
    by (auto simp: gcp_delete_bucket_def gcp_delete_failed_def
        request_def [of "BucketDelete b"] say_def
        split: prod.splits sum.splits gcp_exn.splits)
qed

theorem cleanup_failure_outcome_witness:
  "aws_delete_bucket s3_objects_denied ''my-data'' ''r1'' (start [''my-data''])
     = (Returns True,
        \<lparr>backend = [],
         calls = [HeadBucket ''my-data'', DeleteAllObjects ''r1'' ''my-data'',
                  DeleteBucket ''my-data''],
         out = [S3_deleting, S3_attempting_to_empty, S3_could_not_be_emptied ''AccessDenied'',
                S3_deleted]\<rparr>)
   \<and> fst (aws_delete_bucket s3_memory ''my-data'' ''r1'' (start [''my-data''])) = Returns True
   \<and> fst (aws_delete_bucket s3_objects_unreachable ''my-data'' ''r1'' (start [''my-data'']))
       = Raises OtherBotoError
   \<and> gcp_delete_bucket gcs_objects_denied ''my-data'' (start [(''my-data'', [''o1'', ''o2''])])
     = (True,
        \<lparr>backend = [],
         calls = [GetBucket ''my-data'', ListBlobs ''my-data'',
                  DeleteBlobs ''my-data'' [''o1'', ''o2''], BucketDelete ''my-data''],
         out = [Gcs_attempting_to_delete_objects, Gcs_could_not_delete_objects Forbidden,
                Gcs_deleted]\<rparr>)"
  using cleanup_failure_outcome
    [of s3_objects_denied "''my-data''" "start [''my-data'']" "[''my-data'']" "''r1''"
      "''AccessDenied''" "[''my-data'']"
      gcs_objects_denied "start [(''my-data'', [''o1'', ''o2''])]"
      "\<lparr>bucket_location = ''US'', bucket_storage_class = ''STANDARD'',
         bucket_time_created = ''2024-01-01''\<rparr>"
      "snd (request (GetBucket ''my-data'') (gcs_get_bucket gcs_objects_denied ''my-data'')
         (start [(''my-data'', [''o1'', ''o2''])]))"]
    cleanup_failure_outcome
    [of s3_memory "''my-data''" "start [''my-data'']" "[''my-data'']" "''r1''"
      "''AccessDenied''" "[''my-data'']"
      gcs_objects_denied "start [(''my-data'', [''o1'', ''o2''])]"
      "\<lparr>bucket_location = ''US'', bucket_storage_class = ''STANDARD'',
         bucket_time_created = ''2024-01-01''\<rparr>"
      "snd (request (GetBucket ''my-data'') (gcs_get_bucket gcs_objects_denied ''my-data'')
         (start [(''my-data'', [''o1'', ''o2''])]))"]
    cleanup_failure_outcome
    [of s3_objects_unreachable "''my-data''" "start [''my-data'']" "[''my-data'']" "''r1''"
      "''AccessDenied''" "[''my-data'']"
      gcs_objects_denied "start [(''my-data'', [''o1'', ''o2''])]"
      "\<lparr>bucket_location = ''US'', bucket_storage_class = ''STANDARD'',
         bucket_time_created = ''2024-01-01''\<rparr>"
      "snd (request (GetBucket ''my-data'') (gcs_get_bucket gcs_objects_denied ''my-data'')
         (start [(''my-data'', [''o1'', ''o2''])]))"]
  by (simp add: aws_defs gcp_defs world_simps fixture_defs)


end
